theory Spec2Isabelle
  imports Complex_Main "HOL-Library.Multiset"
begin

unbundle bit_operations_syntax

section \<open>ascii-waves: the wave engine, the noise field and the colour mapper\<close>

text \<open>
  A shallow embedding of \<^verbatim>\<open>public/js/noise.js\<close>, \<^verbatim>\<open>public/js/wave-engine.js\<close>,
  \<^verbatim>\<open>public/js/utils.js\<close> and of \<^verbatim>\<open>Renderer.calculateColor\<close>.

  Conventions of the embedding.
  \<^item> A finite JavaScript number is a \<^typ>\<open>real\<close>: rounding to double precision is not
    modelled, and \<open>-0\<close> is not told apart from \<open>+0\<close>.
  \<^item> A number that may have left the finite ones (in \<^verbatim>\<open>selectCharacter\<close>,
    \<^verbatim>\<open>calculateColor\<close> and \<^verbatim>\<open>hslToRgb\<close>: the quotient \<^verbatim>\<open>waveValue / amplitude\<close>,
    the lightness and everything computed from them) is a \<open>jsnum\<close>, with \<open>NaN\<close> and the
    two infinities and the IEEE 754 rules for them: a sum, product or quotient too large for
    a double is an infinity.
  \<^item> In \<^verbatim>\<open>calculateWave\<close> and \<^verbatim>\<open>noise3D\<close> the arithmetic is that of the reals, with no
    overflow.
  \<^item> Integers of the source (\<^verbatim>\<open>layers\<close>, \<^verbatim>\<open>noiseSeed\<close>, array indices) are
    \<^typ>\<open>int\<close>; the elements of a \<^verbatim>\<open>Uint8Array\<close> are \<^typ>\<open>nat\<close>, stored modulo 256.
  \<^item> \<^verbatim>\<open>this\<close> is an explicit record that the mutating methods return updated.
  \<^item> \<^verbatim>\<open>Math.random()\<close> is an explicit argument.
\<close>

subsection \<open>JavaScript numbers\<close>

datatype jsnum = Num real | PosInf | NegInf | NaN

fun js_neg :: "jsnum \<Rightarrow> jsnum" where
  "js_neg (Num a) = Num (- a)"
| "js_neg PosInf = NegInf"
| "js_neg NegInf = PosInf"
| "js_neg NaN = NaN"

text \<open>The infinity that has the sign of a non-zero real.\<close>

definition inf_of_sign :: "real \<Rightarrow> jsnum" where
  "inf_of_sign a = (if a > 0 then PosInf else NegInf)"

text \<open>
  The largest double, \<^verbatim>\<open>Number.MAX_VALUE\<close>, is \<open>(2^53 - 1) * 2^971\<close>. Rounding to nearest
  turns a result into an infinity when its magnitude reaches \<open>2^1024 - 2^970\<close>, half a
  unit in the last place above the largest double.
\<close>

definition MAX_VALUE :: real where
  "MAX_VALUE = (2 ^ 53 - 1) * 2 ^ 971"

definition overflow_threshold :: real where
  "overflow_threshold = 2 ^ 1024 - 2 ^ 970"


text \<open>The exact result of an operation on finite numbers, as a JavaScript number.\<close>

definition fin :: "real \<Rightarrow> jsnum" where
  "fin r = (if \<bar>r\<bar> < overflow_threshold then Num r else inf_of_sign r)"

text \<open>\<^verbatim>\<open>a + b\<close>\<close>

fun js_add :: "jsnum \<Rightarrow> jsnum \<Rightarrow> jsnum" where
  "js_add (Num a) (Num b) = fin (a + b)"
| "js_add NaN _ = NaN"
| "js_add _ NaN = NaN"
| "js_add PosInf NegInf = NaN"
| "js_add NegInf PosInf = NaN"
| "js_add PosInf _ = PosInf"
| "js_add _ PosInf = PosInf"
| "js_add NegInf _ = NegInf"
| "js_add _ NegInf = NegInf"

text \<open>\<^verbatim>\<open>a - b\<close>\<close>

definition js_sub :: "jsnum \<Rightarrow> jsnum \<Rightarrow> jsnum" where
  "js_sub a b = js_add a (js_neg b)"

text \<open>\<^verbatim>\<open>a * b\<close>: an infinity times zero is \<open>NaN\<close>.\<close>

fun js_mul :: "jsnum \<Rightarrow> jsnum \<Rightarrow> jsnum" where
  "js_mul (Num a) (Num b) = fin (a * b)"
| "js_mul NaN _ = NaN"
| "js_mul _ NaN = NaN"
| "js_mul (Num a) PosInf = (if a = 0 then NaN else inf_of_sign a)"
| "js_mul (Num a) NegInf = (if a = 0 then NaN else inf_of_sign (- a))"
| "js_mul PosInf (Num b) = (if b = 0 then NaN else inf_of_sign b)"
| "js_mul NegInf (Num b) = (if b = 0 then NaN else inf_of_sign (- b))"
| "js_mul PosInf PosInf = PosInf"
| "js_mul PosInf NegInf = NegInf"
| "js_mul NegInf PosInf = NegInf"
| "js_mul NegInf NegInf = PosInf"

text \<open>
  \<^verbatim>\<open>a / b\<close>: zero over zero and infinity over infinity are \<open>NaN\<close>; a non-zero number
  over zero is an infinity (the zero divisor is read as \<open>+0\<close>).
\<close>

fun js_div :: "jsnum \<Rightarrow> jsnum \<Rightarrow> jsnum" where
  "js_div (Num a) (Num b) =
     (if b \<noteq> 0 then fin (a / b) else if a = 0 then NaN else inf_of_sign a)"
| "js_div NaN _ = NaN"
| "js_div _ NaN = NaN"
| "js_div (Num a) PosInf = Num 0"
| "js_div (Num a) NegInf = Num 0"
| "js_div PosInf (Num b) = (if b \<ge> 0 then PosInf else NegInf)"
| "js_div NegInf (Num b) = (if b \<ge> 0 then NegInf else PosInf)"
| "js_div PosInf PosInf = NaN"
| "js_div PosInf NegInf = NaN"
| "js_div NegInf PosInf = NaN"
| "js_div NegInf NegInf = NaN"

text \<open>\<^verbatim>\<open>a < b\<close> and \<^verbatim>\<open>a > b\<close>: every comparison with \<open>NaN\<close> is false.\<close>

fun js_lt :: "jsnum \<Rightarrow> jsnum \<Rightarrow> bool" where
  "js_lt (Num a) (Num b) = (a < b)"
| "js_lt NaN _ = False"
| "js_lt _ NaN = False"
| "js_lt _ NegInf = False"
| "js_lt PosInf _ = False"
| "js_lt NegInf _ = True"
| "js_lt _ PosInf = True"

definition js_gt :: "jsnum \<Rightarrow> jsnum \<Rightarrow> bool" where
  "js_gt a b = js_lt b a"

text \<open>\<^verbatim>\<open>Math.min(a, b)\<close> and \<^verbatim>\<open>Math.max(a, b)\<close>: \<open>NaN\<close> if an argument is \<open>NaN\<close>.\<close>

fun Math_min :: "jsnum \<Rightarrow> jsnum \<Rightarrow> jsnum" where
  "Math_min NaN _ = NaN"
| "Math_min _ NaN = NaN"
| "Math_min a b = (if js_lt b a then b else a)"

fun Math_max :: "jsnum \<Rightarrow> jsnum \<Rightarrow> jsnum" where
  "Math_max NaN _ = NaN"
| "Math_max _ NaN = NaN"
| "Math_max a b = (if js_lt a b then b else a)"

text \<open>\<^verbatim>\<open>Math.floor(a)\<close>; \<^verbatim>\<open>Math.round(a)\<close> rounds a half upwards.\<close>

fun Math_floor :: "jsnum \<Rightarrow> jsnum" where
  "Math_floor (Num a) = Num (of_int \<lfloor>a\<rfloor>)"
| "Math_floor a = a"

fun Math_round :: "jsnum \<Rightarrow> jsnum" where
  "Math_round (Num a) = Num (of_int \<lfloor>a + 1 / 2\<rfloor>)"
| "Math_round a = a"

text \<open>
  \<^verbatim>\<open>a % b\<close> on numbers: the remainder has the sign of the dividend
  (\<open>a - b * trunc (a / b)\<close>).
\<close>

definition trunc :: "real \<Rightarrow> int" where
  "trunc a = (if a \<ge> 0 then \<lfloor>a\<rfloor> else \<lceil>a\<rceil>)"

fun js_rem :: "jsnum \<Rightarrow> jsnum \<Rightarrow> jsnum" where
  "js_rem (Num a) (Num b) = (if b = 0 then NaN else Num (a - b * of_int (trunc (a / b))))"
| "js_rem (Num a) PosInf = Num a"
| "js_rem (Num a) NegInf = Num a"
| "js_rem _ _ = NaN"

text \<open>\<^verbatim>\<open>a % b\<close> on integers.\<close>

definition int_rem :: "int \<Rightarrow> int \<Rightarrow> int" where
  "int_rem a b = sgn a * (\<bar>a\<bar> mod \<bar>b\<bar>)"

subsection \<open>Utils\<close>

text \<open>\<^verbatim>\<open>Utils.clamp(value, min, max) = Math.max(min, Math.min(max, value))\<close>\<close>

definition clamp :: "jsnum \<Rightarrow> jsnum \<Rightarrow> jsnum \<Rightarrow> jsnum" where
  "clamp v lo hi = Math_max lo (Math_min hi v)"

subsection \<open>Typed arrays\<close>

text \<open>
  A \<^verbatim>\<open>Uint8Array\<close> is the list of its elements. Reading outside the array gives
  \<^verbatim>\<open>undefined\<close> (\<open>None\<close>); writing outside it is ignored; a stored value is converted
  to an unsigned byte, \<^verbatim>\<open>undefined\<close> becoming 0.
\<close>

definition rd :: "nat list \<Rightarrow> int \<Rightarrow> nat option" where
  "rd a i = (if 0 \<le> i \<and> i < int (length a) then Some (a ! nat i) else None)"

definition to_uint8 :: "nat option \<Rightarrow> nat" where
  "to_uint8 v = (case v of None \<Rightarrow> 0 | Some n \<Rightarrow> n mod 256)"

definition wr :: "nat list \<Rightarrow> int \<Rightarrow> nat option \<Rightarrow> nat list" where
  "wr a i v = (if 0 \<le> i \<and> i < int (length a) then a[nat i := to_uint8 v] else a)"

subsection \<open>noise.js: the constructor of SimplexNoise\<close>

record SimplexNoise =
  p :: "nat list"
  perm :: "nat list"
  permMod12 :: "nat list"

text \<open>
  One call of the closure that \<^verbatim>\<open>seededRandom(seed)\<close> returns: the captured variable
  \<^verbatim>\<open>seed\<close> is the state, passed in and returned with the result.
  \<^verbatim>\<open>seed = (seed * 9301 + 49297) % 233280; return seed / 233280;\<close>
  The integers are exact; the code computes in doubles, which are exact as long as
  \<open>\<bar>seed * 9301\<bar> + 49297 \<le> 2^53\<close>: that holds for every state after the first call and for
  a first seed up to about \<open>9.6 * 10^11\<close> in magnitude.
\<close>

definition seededRandom :: "int \<Rightarrow> real \<times> int" where
  "seededRandom seed =
     (let seed' = int_rem (seed * 9301 + 49297) 233280
      in (real_of_int seed' / 233280, seed'))"

text \<open>\<^verbatim>\<open>[this.p[i], this.p[j]] = [this.p[j], this.p[i]]\<close>: both reads, then both writes.\<close>

definition swap :: "nat list \<Rightarrow> int \<Rightarrow> int \<Rightarrow> nat list" where
  "swap a i j = (let pj = rd a j; pi = rd a i in wr (wr a i pj) j pi)"

text \<open>
  The Fisher-Yates loop \<^verbatim>\<open>for (let i = 255; i > 0; i--)\<close>, started as \<open>shuffle 255\<close>:
  the first argument is \<open>i\<close>.
\<close>

fun shuffle :: "nat \<Rightarrow> int \<Rightarrow> nat list \<Rightarrow> nat list" where
  "shuffle 0 seed a = a"
| "shuffle (Suc n) seed a =
     (let (r, seed') = seededRandom seed;
          j = \<lfloor>r * (real (Suc n) + 1)\<rfloor>
      in shuffle n seed' (swap a (int (Suc n)) j))"

text \<open>
  The constructor with a seed given: the identity table, the shuffle, and the loop that
  fills \<^verbatim>\<open>perm[i] = p[i & 255]\<close> and \<^verbatim>\<open>permMod12[i] = perm[i] % 12\<close> for \<open>i < 512\<close>.
\<close>

definition new_SimplexNoise :: "int \<Rightarrow> SimplexNoise" where
  "new_SimplexNoise seed =
     (let p0 = map (\<lambda>i. to_uint8 (Some i)) [0..<256];
          p1 = shuffle 255 seed p0;
          perm1 = map (\<lambda>i. to_uint8 (rd p1 (int i AND 255))) [0..<512];
          permMod12_1 = map (\<lambda>i. to_uint8 (map_option (\<lambda>v. v mod 12) (rd perm1 (int i)))) [0..<512]
      in \<lparr>p = p1, perm = perm1, permMod12 = permMod12_1\<rparr>)"


subsection \<open>noise.js: noise3D\<close>

definition F3 :: real where
  "F3 = 1 / 3"

definition G3 :: real where
  "G3 = 1 / 6"

definition grad3 :: "(real \<times> real \<times> real) list" where
  "grad3 =
     [(1, 1, 0), (-1, 1, 0), (1, -1, 0), (-1, -1, 0),
      (1, 0, 1), (-1, 0, 1), (1, 0, -1), (-1, 0, -1),
      (0, 1, 1), (0, -1, 1), (0, 1, -1), (0, -1, -1)]"

fun dot3 :: "real \<times> real \<times> real \<Rightarrow> real \<Rightarrow> real \<Rightarrow> real \<Rightarrow> real" where
  "dot3 (g0, g1, g2) x y z = g0 * x + g1 * y + g2 * z"

text \<open>
  \<^verbatim>\<open>this.permMod12[a + this.perm[b + this.perm[c]]]\<close>. An \<^verbatim>\<open>undefined\<close> read makes the
  enclosing sum \<open>NaN\<close>, and the read at \<open>NaN\<close> is \<^verbatim>\<open>undefined\<close> again.
\<close>

definition gradIndex :: "SimplexNoise \<Rightarrow> int \<Rightarrow> int \<Rightarrow> int \<Rightarrow> nat option" where
  "gradIndex N a b c =
     (case rd (perm N) c of
        None \<Rightarrow> None
      | Some pc \<Rightarrow>
          (case rd (perm N) (b + int pc) of
             None \<Rightarrow> None
           | Some pb \<Rightarrow> rd (permMod12 N) (a + int pb)))"

text \<open>
  The contribution of one corner. \<^verbatim>\<open>this.grad3[gi]\<close> is \<^verbatim>\<open>undefined\<close> when \<open>gi\<close> is
  \<^verbatim>\<open>undefined\<close> or not an index of \<open>grad3\<close>, and \<^verbatim>\<open>dot3\<close> then throws a TypeError
  (\<open>None\<close>).
\<close>

definition corner :: "nat option \<Rightarrow> real \<Rightarrow> real \<Rightarrow> real \<Rightarrow> real option" where
  "corner gi x y z =
     (let t = 0.6 - x * x - y * y - z * z
      in if t < 0 then Some 0
         else (case gi of
                 None \<Rightarrow> None
               | Some g \<Rightarrow>
                   if g < length grad3
                   then Some ((t * t) * (t * t) * dot3 (grad3 ! g) x y z)
                   else None))"

text \<open>The six orderings of the offsets: \<open>(i1, j1, k1, i2, j2, k2)\<close>.\<close>

definition simplexOrder :: "real \<Rightarrow> real \<Rightarrow> real \<Rightarrow> int \<times> int \<times> int \<times> int \<times> int \<times> int" where
  "simplexOrder x0 y0 z0 =
     (if x0 \<ge> y0 then
        (if y0 \<ge> z0 then (1, 0, 0, 1, 1, 0)
         else if x0 \<ge> z0 then (1, 0, 0, 1, 0, 1)
         else (0, 0, 1, 1, 0, 1))
      else
        (if y0 < z0 then (0, 0, 1, 0, 1, 1)
         else if x0 < z0 then (0, 1, 0, 0, 1, 1)
         else (0, 1, 0, 1, 1, 0)))"

text \<open>\<^verbatim>\<open>noise3D(xin, yin, zin)\<close>; \<open>None\<close> when a TypeError is thrown.\<close>

definition noise3D :: "SimplexNoise \<Rightarrow> real \<Rightarrow> real \<Rightarrow> real \<Rightarrow> real option" where
  "noise3D N xin yin zin =
     (let s = (xin + yin + zin) * F3;
          i = \<lfloor>xin + s\<rfloor>;
          j = \<lfloor>yin + s\<rfloor>;
          k = \<lfloor>zin + s\<rfloor>;
          t = real_of_int (i + j + k) * G3;
          X0 = real_of_int i - t;
          Y0 = real_of_int j - t;
          Z0 = real_of_int k - t;
          x0 = xin - X0;
          y0 = yin - Y0;
          z0 = zin - Z0;
          (i1, j1, k1, i2, j2, k2) = simplexOrder x0 y0 z0;
          x1 = x0 - real_of_int i1 + G3;
          y1 = y0 - real_of_int j1 + G3;
          z1 = z0 - real_of_int k1 + G3;
          x2 = x0 - real_of_int i2 + 2 * G3;
          y2 = y0 - real_of_int j2 + 2 * G3;
          z2 = z0 - real_of_int k2 + 2 * G3;
          x3 = x0 - 1 + 3 * G3;
          y3 = y0 - 1 + 3 * G3;
          z3 = z0 - 1 + 3 * G3;
          ii = i AND 255;
          jj = j AND 255;
          kk = k AND 255;
          gi0 = gradIndex N ii jj kk;
          gi1 = gradIndex N (ii + i1) (jj + j1) (kk + k1);
          gi2 = gradIndex N (ii + i2) (jj + j2) (kk + k2);
          gi3 = gradIndex N (ii + 1) (jj + 1) (kk + 1)
      in case corner gi0 x0 y0 z0 of
           None \<Rightarrow> None
         | Some n0 \<Rightarrow>
             (case corner gi1 x1 y1 z1 of
                None \<Rightarrow> None
              | Some n1 \<Rightarrow>
                  (case corner gi2 x2 y2 z2 of
                     None \<Rightarrow> None
                   | Some n2 \<Rightarrow>
                       (case corner gi3 x3 y3 z3 of
                          None \<Rightarrow> None
                        | Some n3 \<Rightarrow> Some (32 * (n0 + n1 + n2 + n3))))))"

subsection \<open>wave-engine.js: configuration and state\<close>

record WaveConfig =
  amplitude :: real
  speed :: real
  frequency :: real
  layers :: int
  choppiness :: real
  foamThreshold :: real
  depthEffect :: real
  noiseSeed :: int
  timeSpeed :: real

text \<open>
  The argument of \<^verbatim>\<open>updateConfig\<close>: an object that has some of the fields of the
  configuration; \<open>None\<close> is a field the object does not have.
\<close>

record PartialWaveConfig =
  new_amplitude :: "real option"
  new_speed :: "real option"
  new_frequency :: "real option"
  new_layers :: "int option"
  new_choppiness :: "real option"
  new_foamThreshold :: "real option"
  new_depthEffect :: "real option"
  new_noiseSeed :: "int option"
  new_timeSpeed :: "real option"

definition emptyPartial :: PartialWaveConfig where
  "emptyPartial =
     \<lparr>new_amplitude = None, new_speed = None, new_frequency = None, new_layers = None,
      new_choppiness = None, new_foamThreshold = None, new_depthEffect = None,
      new_noiseSeed = None, new_timeSpeed = None\<rparr>"

text \<open>A glyph is the code point of its one character.\<close>

type_synonym glyph = nat

record CharacterSet =
  sky :: "glyph list"
  surface :: "glyph list"
  shallow :: "glyph list"
  medium :: "glyph list"
  deep :: "glyph list"
  foam :: "glyph list"

definition classic_set :: CharacterSet where
  "classic_set =
     \<lparr>sky = [32, 46, 183, 729],
      surface = [126, 8776, 8764, 8779],
      shallow = [45, 61, 8801],
      medium = [9617, 9618, 9619],
      deep = [9608, 9632, 9646],
      foam = [42, 8251, 10022, 10033, 8258]\<rparr>"

definition minimal_set :: CharacterSet where
  "minimal_set =
     \<lparr>sky = [32, 32, 46, 46],
      surface = [126, 126, 45, 45],
      shallow = [45, 45, 61, 61],
      medium = [61, 61, 35, 35],
      deep = [35, 35, 64, 64],
      foam = [42, 42, 43, 43, 111]\<rparr>"

definition dense_set :: CharacterSet where
  "dense_set =
     \<lparr>sky = [32, 183, 729, 8901],
      surface = [8776, 8765, 8764, 8779, 8771],
      shallow = [9601, 9602, 9603, 9604],
      medium = [9605, 9606, 9607, 9608],
      deep = [9608, 9619, 9618, 9617],
      foam = [10022, 10023, 10038, 10039, 10040, 10041]\<rparr>"

definition unicode_set :: CharacterSet where
  "unicode_set =
     \<lparr>sky = [32, 8729, 183, 8901, 8226],
      surface = [12316, 65374, 8767, 8776, 8779],
      shallow = [9135, 9148, 9644, 9552],
      medium = [9617, 9618, 9619, 9608],
      deep = [9608, 9609, 9610, 9611, 9612],
      foam = [8277, 8251, 10018, 10019, 10020, 10021]\<rparr>"

text \<open>
  \<^verbatim>\<open>this.characterSets\<close> is an object literal, so a property read finds the four own
  properties and then the properties every object inherits from
  \<^verbatim>\<open>Object.prototype\<close> (ECMAScript, sections 20.1.3 and B.2.2), which are functions or
  objects.
\<close>

datatype property = Undefined | Palette CharacterSet | Inherited

definition Object_prototype_keys :: "string list" where
  "Object_prototype_keys =
     [''constructor'', ''hasOwnProperty'', ''isPrototypeOf'', ''propertyIsEnumerable'',
      ''toLocaleString'', ''toString'', ''valueOf'', ''__proto__'',
      ''__defineGetter__'', ''__defineSetter__'', ''__lookupGetter__'', ''__lookupSetter__'']"

definition characterSets :: "string \<Rightarrow> property" where
  "characterSets name =
     (if name = ''classic'' then Palette classic_set
      else if name = ''minimal'' then Palette minimal_set
      else if name = ''dense'' then Palette dense_set
      else if name = ''unicode'' then Palette unicode_set
      else if name \<in> set Object_prototype_keys then Inherited
      else Undefined)"

text \<open>The truth value of a property in a condition: only \<^verbatim>\<open>undefined\<close> is false here.\<close>

fun truthy :: "property \<Rightarrow> bool" where
  "truthy Undefined = False"
| "truthy (Palette _) = True"
| "truthy Inherited = True"

text \<open>
  The state of a \<^verbatim>\<open>WaveEngine\<close>. \<open>noiseBuilt\<close> is not a field of the source: it counts
  the evaluations of \<^verbatim>\<open>new SimplexNoise(...)\<close>, so that an instance built again from
  an equal seed is told apart from the instance kept.
\<close>

record WaveEngine =
  config :: WaveConfig
  time :: real
  noise :: SimplexNoise
  noiseBuilt :: nat
  currentCharacterSet :: string

text \<open>\<^verbatim>\<open>Object.assign(this.config, newConfig)\<close>\<close>

definition assign :: "WaveConfig \<Rightarrow> PartialWaveConfig \<Rightarrow> WaveConfig" where
  "assign c n =
     \<lparr>amplitude = (case new_amplitude n of None \<Rightarrow> amplitude c | Some v \<Rightarrow> v),
      speed = (case new_speed n of None \<Rightarrow> speed c | Some v \<Rightarrow> v),
      frequency = (case new_frequency n of None \<Rightarrow> frequency c | Some v \<Rightarrow> v),
      layers = (case new_layers n of None \<Rightarrow> layers c | Some v \<Rightarrow> v),
      choppiness = (case new_choppiness n of None \<Rightarrow> choppiness c | Some v \<Rightarrow> v),
      foamThreshold = (case new_foamThreshold n of None \<Rightarrow> foamThreshold c | Some v \<Rightarrow> v),
      depthEffect = (case new_depthEffect n of None \<Rightarrow> depthEffect c | Some v \<Rightarrow> v),
      noiseSeed = (case new_noiseSeed n of None \<Rightarrow> noiseSeed c | Some v \<Rightarrow> v),
      timeSpeed = (case new_timeSpeed n of None \<Rightarrow> timeSpeed c | Some v \<Rightarrow> v)\<rparr>"

text \<open>
  The constructor. \<open>randomSeed\<close> is the value of
  \<^verbatim>\<open>Math.floor(Math.random() * 999999)\<close>.
\<close>

definition defaultConfig :: "int \<Rightarrow> WaveConfig" where
  "defaultConfig randomSeed =
     \<lparr>amplitude = 0.8, speed = 1.0, frequency = 1.5, layers = 3, choppiness = 0.3,
      foamThreshold = 0.7, depthEffect = 0.5, noiseSeed = randomSeed, timeSpeed = 1.5\<rparr>"

definition new_WaveEngine :: "PartialWaveConfig \<Rightarrow> int \<Rightarrow> WaveEngine" where
  "new_WaveEngine given randomSeed =
     (let c = assign (defaultConfig randomSeed) given
      in \<lparr>config = c, time = 0, noise = new_SimplexNoise (noiseSeed c), noiseBuilt = 1,
          currentCharacterSet = ''classic''\<rparr>)"

text \<open>\<^verbatim>\<open>updateConfig(newConfig)\<close>\<close>

definition updateConfig :: "WaveEngine \<Rightarrow> PartialWaveConfig \<Rightarrow> WaveEngine" where
  "updateConfig s newConfig =
     (let s1 = s\<lparr>config := assign (config s) newConfig\<rparr>
      in if new_noiseSeed newConfig \<noteq> None
         then s1\<lparr>noise := new_SimplexNoise (noiseSeed (config s1)),
                 noiseBuilt := Suc (noiseBuilt s1)\<rparr>
         else s1)"

text \<open>\<^verbatim>\<open>setCharacterSet(setName)\<close>\<close>

definition setCharacterSet :: "WaveEngine \<Rightarrow> string \<Rightarrow> WaveEngine" where
  "setCharacterSet s setName =
     (if truthy (characterSets setName) then s\<lparr>currentCharacterSet := setName\<rparr> else s)"

text \<open>\<^verbatim>\<open>update(deltaTime)\<close> and \<^verbatim>\<open>resetTime()\<close>\<close>

definition update :: "WaveEngine \<Rightarrow> real \<Rightarrow> WaveEngine" where
  "update s deltaTime = s\<lparr>time := time s + deltaTime * timeSpeed (config s)\<rparr>"

definition resetTime :: "WaveEngine \<Rightarrow> WaveEngine" where
  "resetTime s = s\<lparr>time := 0\<rparr>"

subsection \<open>wave-engine.js: calculateWave\<close>

text \<open>The three constants computed first in \<^verbatim>\<open>calculateWave\<close>.\<close>

definition layerDepth :: "WaveConfig \<Rightarrow> int \<Rightarrow> real" where
  "layerDepth c layer = real_of_int layer / real_of_int (max (layers c) 1)"

definition layerSpeed :: "WaveConfig \<Rightarrow> int \<Rightarrow> real" where
  "layerSpeed c layer = speed c * (1 - layerDepth c layer * depthEffect c)"

definition layerAmplitude :: "WaveConfig \<Rightarrow> int \<Rightarrow> real" where
  "layerAmplitude c layer = amplitude c * (1 - layerDepth c layer * 0.3)"

text \<open>\<^verbatim>\<open>calculateWave(x, y, layer)\<close>; \<open>None\<close> when \<^verbatim>\<open>noise3D\<close> throws.\<close>

definition calculateWave :: "WaveEngine \<Rightarrow> real \<Rightarrow> real \<Rightarrow> int \<Rightarrow> real option" where
  "calculateWave s x y layer =
     (let c = config s;
          lSpeed = layerSpeed c layer;
          lAmplitude = layerAmplitude c layer;
          wave0 = 0;
          wave1 = wave0 + sin (x * frequency c * pi * 2 + time s * lSpeed) * lAmplitude;
          wave2 = wave1
            + sin (x * frequency c * 1.5 * pi * 2 + time s * lSpeed * 1.3) * lAmplitude * 0.5;
          wave3 = wave2
            + sin (x * frequency c * 2.5 * pi * 2 + time s * lSpeed * 0.7) * lAmplitude * 0.3
      in case noise3D (noise s) (x * frequency c * 2)
                (y * frequency c * 2 + time s * lSpeed * 0.1) (real_of_int layer * 0.5) of
           None \<Rightarrow> None
         | Some noiseValue \<Rightarrow>
             (let wave4 = wave3 + noiseValue * choppiness c * lAmplitude;
                  wave5 = wave4 + sin (y * pi + time s * lSpeed * 0.5) * lAmplitude * 0.3
              in Some wave5))"

subsection \<open>wave-engine.js: selectCharacter\<close>

text \<open>
  \<^verbatim>\<open>Utils.clamp((waveValue / amplitude + 1) / 2, 0, 1)\<close>, the first step of both
  \<^verbatim>\<open>selectCharacter\<close> and \<^verbatim>\<open>calculateColor\<close>.
\<close>

definition normalized :: "real \<Rightarrow> real \<Rightarrow> jsnum" where
  "normalized waveValue amp =
     clamp (js_div (js_add (js_div (Num waveValue) (Num amp)) (Num 1)) (Num 2)) (Num 0) (Num 1)"

text \<open>
  \<^verbatim>\<open>chars[i]\<close> for a number \<open>i\<close>: the element when \<open>i\<close> is an index of the array,
  \<^verbatim>\<open>undefined\<close> (\<open>None\<close>) otherwise, also at \<open>NaN\<close>.
\<close>

fun elemAt :: "'a list \<Rightarrow> jsnum \<Rightarrow> 'a option" where
  "elemAt chars (Num i) =
     (if i = real_of_int \<lfloor>i\<rfloor> \<and> 0 \<le> i \<and> i < real (length chars)
      then Some (chars ! nat \<lfloor>i\<rfloor>) else None)"
| "elemAt chars _ = None"

text \<open>
  \<^verbatim>\<open>const index = Math.floor(e * chars.length);
  return chars[Math.min(index, chars.length - 1)];\<close>
\<close>

definition pick :: "glyph list \<Rightarrow> jsnum \<Rightarrow> glyph option" where
  "pick chars e =
     (let len = Num (real (length chars));
          index = Math_floor (js_mul e len)
      in elemAt chars (Math_min index (js_sub len (Num 1))))"

text \<open>What a call does: it returns a value, or it throws a TypeError.\<close>

datatype 'a completion = Return 'a | Throw

text \<open>The condition of the foam branch.\<close>

definition foamSelected :: "WaveConfig \<Rightarrow> real \<Rightarrow> bool" where
  "foamSelected c waveValue =
     (js_gt (normalized waveValue (amplitude c)) (Num (foamThreshold c)) \<and> waveValue > 0)"

text \<open>The body of \<^verbatim>\<open>selectCharacter\<close> once \<^verbatim>\<open>charSet\<close> is a palette.\<close>

definition selectFrom :: "CharacterSet \<Rightarrow> WaveConfig \<Rightarrow> real \<Rightarrow> real \<Rightarrow> glyph option" where
  "selectFrom charSet c waveValue random =
     (let n = normalized waveValue (amplitude c)
      in if foamSelected c waveValue then
           pick (foam charSet) (js_add (Num (random * 0.3)) (js_mul n (Num 0.7)))
         else if js_gt n (Num 0.75) then
           pick (surface charSet) (js_mul (js_sub n (Num 0.75)) (Num 4))
         else if js_gt n (Num 0.55) then
           pick (shallow charSet) (js_mul (js_sub n (Num 0.55)) (Num 5))
         else if js_gt n (Num 0.35) then
           pick (medium charSet) (js_mul (js_sub n (Num 0.35)) (Num 5))
         else if js_gt n (Num 0.15) then
           pick (deep charSet) (js_mul (js_sub n (Num 0.15)) (Num 5))
         else
           pick (sky charSet) (js_mul n (Num 6.67)))"

text \<open>
  \<^verbatim>\<open>selectCharacter(waveValue, layer)\<close>; \<open>random\<close> is the value of
  \<^verbatim>\<open>Math.random()\<close>, in \<open>[0, 1)\<close>. When \<^verbatim>\<open>charSet\<close> is not a palette, the band read
  from it is \<^verbatim>\<open>undefined\<close> and \<^verbatim>\<open>chars.length\<close> throws.
\<close>

definition selectCharacter ::
  "WaveEngine \<Rightarrow> real \<Rightarrow> int \<Rightarrow> real \<Rightarrow> glyph option completion" where
  "selectCharacter s waveValue layer random =
     (case characterSets (currentCharacterSet s) of
        Palette charSet \<Rightarrow> Return (selectFrom charSet (config s) waveValue random)
      | _ \<Rightarrow> Throw)"

subsection \<open>utils.js: hslToRgb\<close>

definition hslToRgb :: "jsnum \<Rightarrow> jsnum \<Rightarrow> jsnum \<Rightarrow> jsnum \<times> jsnum \<times> jsnum" where
  "hslToRgb h0 s l =
     (let h = js_div h0 (Num 360);
          a = js_mul s (Math_min l (js_sub (Num 1) l));
          f = (\<lambda>n.
                 let k = js_rem (js_add (Num n) (js_mul h (Num 12))) (Num 12)
                 in js_sub l
                      (js_mul a
                         (Math_max (Num (- 1))
                            (Math_min (js_sub k (Num 3)) (Math_min (js_sub (Num 9) k) (Num 1))))))
      in (Math_round (js_mul (f 0) (Num 255)),
          Math_round (js_mul (f 8) (Num 255)),
          Math_round (js_mul (f 4) (Num 255))))"

subsection \<open>Renderer.calculateColor\<close>

record RenderConfig =
  cellSize :: int
  hue :: real
  saturation :: real
  brightness :: real
  contrast :: real
  vignetteIntensity :: real
  vignetteRadius :: real

text \<open>
  \<^verbatim>\<open>calculateColor(waveValue, layerDepth)\<close>: the three numbers that the template
  \<^verbatim>\<open>rgb(${r}, ${g}, ${b})\<close> prints. \<open>rc\<close> is \<^verbatim>\<open>this.config\<close> and \<open>wc\<close> is
  \<^verbatim>\<open>this.waveEngine.config\<close>.
\<close>

definition calculateColor ::
  "RenderConfig \<Rightarrow> WaveConfig \<Rightarrow> real \<Rightarrow> real \<Rightarrow> jsnum \<times> jsnum \<times> jsnum" where
  "calculateColor rc wc waveValue depth =
     (let n = normalized waveValue (amplitude wc);
          lightness0 = js_add (Num 0.5) (Num (brightness rc));
          lightness1 =
            js_mul lightness0 (js_mul (js_add (Num 0.5) (js_mul n (Num 0.5))) (Num (contrast rc)));
          lightness2 =
            js_mul lightness1
              (js_sub (Num 1) (js_mul (js_mul (Num depth) (Num (depthEffect wc))) (Num 0.5)));
          lightness3 = clamp lightness2 (Num 0) (Num 1)
      in hslToRgb (Num (hue rc)) (Num (saturation rc)) lightness3)"

subsection \<open>The specification's sampleHeight\<close>

text \<open>
  The height as section 4.2 of the specification words it, for comparison with
  \<^verbatim>\<open>calculateWave\<close>: \<open>t\<close> is the clock and \<open>sample\<close> the value of \<open>sample3\<close> at
  \<open>(xNorm * frequency * 2, yNorm * frequency * 2 + t * layerSpeed * 0.1, layer * 0.5)\<close>.
\<close>

definition sampleHeight_spec :: "WaveConfig \<Rightarrow> real \<Rightarrow> real \<Rightarrow> real \<Rightarrow> real \<Rightarrow> int \<Rightarrow> real" where
  "sampleHeight_spec c t sample xNorm yNorm layer =
     (let d = real_of_int layer / real_of_int (max (layers c) 1);
          lSpeed = speed c * (1 - d * depthEffect c);
          lAmplitude = amplitude c * (1 - d * 0.3)
      in sin (xNorm * frequency c * (2 * pi) + t * lSpeed) * lAmplitude
         + sin (xNorm * (frequency c * 1.5) * (2 * pi) + t * (lSpeed * 1.3)) * (lAmplitude * 0.5)
         + sin (xNorm * (frequency c * 2.5) * (2 * pi) + t * (lSpeed * 0.7)) * (lAmplitude * 0.3)
         + sample * choppiness c * lAmplitude
         + sin (yNorm * pi + t * lSpeed * 0.5) * (lAmplitude * 0.3))"

subsection \<open>Predicates used by the properties\<close>

text \<open>
  The two tables that \<^verbatim>\<open>noise3D\<close> reads have 512 entries, those of \<^verbatim>\<open>perm\<close> below 256
  and those of \<^verbatim>\<open>permMod12\<close> below 12.
\<close>

definition tablesOK :: "SimplexNoise \<Rightarrow> bool" where
  "tablesOK N =
     (length (perm N) = 512 \<and> length (permMod12 N) = 512 \<and>
      (\<forall>v\<in>set (perm N). v < 256) \<and> (\<forall>v\<in>set (permMod12 N). v < 12))"


text \<open>
  The engine of the specification's end-to-end example:
  \<^verbatim>\<open>{amplitude: 0.8, speed: 1.0, frequency: 1.5, layers: 1, choppiness: 0,
  foamThreshold: 0.7, depthEffect: 0.5, timeSpeed: 1, noiseSeed: 42}\<close>, clock 0.
\<close>

definition specExample :: WaveEngine where
  "specExample =
     new_WaveEngine
       \<lparr>new_amplitude = Some 0.8, new_speed = Some 1.0, new_frequency = Some 1.5,
        new_layers = Some 1, new_choppiness = Some 0, new_foamThreshold = Some 0.7,
        new_depthEffect = Some 0.5, new_noiseSeed = Some 42, new_timeSpeed = Some 1\<rparr> 0"

text \<open>A new engine whose amplitude slider is then moved to 0, the low end of its range.\<close>

definition flatEngine :: WaveEngine where
  "flatEngine =
     updateConfig (new_WaveEngine emptyPartial 42) (emptyPartial\<lparr>new_amplitude := Some 0\<rparr>)"

text \<open>The renderer's initial configuration.\<close>

definition defaultRender :: RenderConfig where
  "defaultRender =
     \<lparr>cellSize = 16, hue = 200, saturation = 0.6, brightness = 0.0, contrast = 1.0,
      vignetteIntensity = 0.4, vignetteRadius = 0.6\<rparr>"

section \<open>Properties\<close>

subsection \<open>The configuration, the clock and the palette name\<close>

lemma assign_empty: "assign c emptyPartial = c"
  by (simp add: assign_def emptyPartial_def)

text \<open>
  C5. \<^verbatim>\<open>updateConfig({})\<close> is the identity on the state of the engine: every field of the
  configuration keeps its value and no noise field is built. For any partial
  configuration, the noise field is built again only when the partial has a
  \<^verbatim>\<open>noiseSeed\<close>: without one, the instance and the count of constructions stay.
\<close>

theorem updateConfig_empty_identity:
  "updateConfig s emptyPartial = s \<and>
   (new_noiseSeed n = None \<longrightarrow>
      noise (updateConfig s n) = noise s \<and> noiseBuilt (updateConfig s n) = noiseBuilt s)"
proof -
  have "new_noiseSeed emptyPartial = None"
    by (simp add: emptyPartial_def)
  then have "updateConfig s emptyPartial = s"
    by (simp add: updateConfig_def assign_empty)
  moreover have "new_noiseSeed n = None \<longrightarrow>
      noise (updateConfig s n) = noise s \<and> noiseBuilt (updateConfig s n) = noiseBuilt s"
    by (simp add: updateConfig_def)
  ultimately show ?thesis by simp
qed

theorem updateConfig_empty_identity_witness:
  "new_noiseSeed (emptyPartial\<lparr>new_amplitude := Some 2\<rparr>) = None \<and>
   updateConfig (new_WaveEngine emptyPartial 42) emptyPartial = new_WaveEngine emptyPartial 42 \<and>
   noise (updateConfig (new_WaveEngine emptyPartial 42) (emptyPartial\<lparr>new_amplitude := Some 2\<rparr>))
     = noise (new_WaveEngine emptyPartial 42) \<and>
   noiseBuilt (updateConfig (new_WaveEngine emptyPartial 42) (emptyPartial\<lparr>new_amplitude := Some 2\<rparr>))
     = 1 \<and>
   amplitude (config (updateConfig (new_WaveEngine emptyPartial 42)
     (emptyPartial\<lparr>new_amplitude := Some 2\<rparr>))) = 2"
proof -
  have none: "new_noiseSeed (emptyPartial\<lparr>new_amplitude := Some 2\<rparr>) = None"
    by (simp add: emptyPartial_def)
  have built: "noiseBuilt (new_WaveEngine emptyPartial 42) = 1"
    by (simp add: new_WaveEngine_def Let_def)
  have amp: "amplitude (config (updateConfig (new_WaveEngine emptyPartial 42)
      (emptyPartial\<lparr>new_amplitude := Some 2\<rparr>))) = 2"
    by (simp add: updateConfig_def assign_def emptyPartial_def)
  show ?thesis
    using updateConfig_empty_identity
      [of "new_WaveEngine emptyPartial 42" "emptyPartial\<lparr>new_amplitude := Some 2\<rparr>"]
      none built amp
    by simp
qed

text \<open>
  C6. \<^verbatim>\<open>update(e)\<close> sets the clock \<open>c\<close> to \<open>c + e * timeSpeed\<close>; \<^verbatim>\<open>update(0)\<close> changes
  nothing; \<^verbatim>\<open>resetTime()\<close> sets the clock to 0.
\<close>

theorem update_advances_clock:
  "time (update s e) = time s + e * timeSpeed (config s) \<and>
   update s 0 = s \<and>
   time (resetTime s) = 0"
  by (simp add: update_def resetTime_def)

text \<open>
  C7. With \<open>layers = 1\<close> and the layer 0, the depth fraction of \<^verbatim>\<open>calculateWave\<close> is 0,
  the speed of the layer is the configured speed and its amplitude the configured
  amplitude.
\<close>

theorem single_layer_no_attenuation:
  "layers c = 1 \<Longrightarrow>
   layerDepth c 0 = 0 \<and> layerSpeed c 0 = speed c \<and> layerAmplitude c 0 = amplitude c"
  by (simp add: layerDepth_def layerSpeed_def layerAmplitude_def)

theorem single_layer_no_attenuation_witness:
  "layers ((defaultConfig 42)\<lparr>layers := 1\<rparr>) = 1 \<and>
   layerDepth ((defaultConfig 42)\<lparr>layers := 1\<rparr>) 0 = 0 \<and>
   layerSpeed ((defaultConfig 42)\<lparr>layers := 1\<rparr>) 0 = 1 \<and>
   layerAmplitude ((defaultConfig 42)\<lparr>layers := 1\<rparr>) 0 = 0.8"
  using single_layer_no_attenuation [of "(defaultConfig 42)\<lparr>layers := 1\<rparr>"]
  by (simp add: defaultConfig_def)

text \<open>
  C10. \<^verbatim>\<open>updateConfig\<close> leaves the clock and the name of the active character set as
  they were, whatever the partial configuration.
\<close>

theorem updateConfig_frame:
  "time (updateConfig s n) = time s \<and>
   currentCharacterSet (updateConfig s n) = currentCharacterSet s"
  by (simp add: updateConfig_def Let_def)

subsection \<open>Typed arrays and the shuffle\<close>

lemma to_uint8_byte: "to_uint8 v < 256"
  by (simp add: to_uint8_def split: option.splits)

lemma length_wr: "length (wr a i v) = length a"
  by (simp add: wr_def)

lemma wr_byte: "\<forall>x\<in>set a. x < 256 \<Longrightarrow> \<forall>x\<in>set (wr a i v). x < 256"
  using to_uint8_byte by (auto simp: wr_def dest!: set_update_subset_insert [THEN subsetD])

lemma set_wr: "set (wr a i v) \<subseteq> insert (to_uint8 v) (set a)"
  using set_update_subset_insert [of a "nat i" "to_uint8 v"] by (auto simp: wr_def)

lemma rd_mem: "rd a i = Some v \<Longrightarrow> v \<in> set a"
  by (auto simp: rd_def split: if_splits)

lemma to_uint8_rd: "\<forall>x\<in>set a. x < 256 \<Longrightarrow> to_uint8 (rd a i) \<in> insert 0 (set a)"
  by (cases "rd a i") (auto simp: to_uint8_def dest: rd_mem)

lemma length_swap: "length (swap a i j) = length a"
  by (simp add: swap_def length_wr)

lemma swap_byte: "\<forall>x\<in>set a. x < 256 \<Longrightarrow> \<forall>x\<in>set (swap a i j). x < 256"
  unfolding swap_def Let_def by (intro wr_byte)

text \<open>A swap brings in no value but 0, which is what an \<^verbatim>\<open>undefined\<close> read stores.\<close>

lemma set_swap:
  assumes "\<forall>x\<in>set a. x < 256"
  shows "set (swap a i j) \<subseteq> insert 0 (set a)"
proof -
  have first: "set (wr a i (rd a j)) \<subseteq> insert 0 (set a)"
    using set_wr [of a i "rd a j"] to_uint8_rd [OF assms, of j] by auto
  have "set (wr (wr a i (rd a j)) j (rd a i))
      \<subseteq> insert (to_uint8 (rd a i)) (set (wr a i (rd a j)))"
    by (rule set_wr)
  with first to_uint8_rd [OF assms, of i] show ?thesis
    by (auto simp: swap_def Let_def)
qed

text \<open>A swap of two places inside the array permutes it.\<close>

lemma mset_swap_in_range:
  assumes bytes: "\<forall>x\<in>set a. x < 256"
    and i: "0 \<le> i" "i < int (length a)"
    and j: "0 \<le> j" "j < int (length a)"
  shows "mset (swap a i j) = mset a"
proof -
  have ni: "nat i < length a" and nj: "nat j < length a"
    using i j by auto
  have vi: "a ! nat i mod 256 = a ! nat i" and vj: "a ! nat j mod 256 = a ! nat j"
    using bytes ni nj by (auto simp: nth_mem)
  have "swap a i j = a[nat i := a ! nat j, nat j := a ! nat i]"
    using i j vi vj by (simp add: swap_def rd_def wr_def to_uint8_def)
  then show ?thesis
    using mset_swap [OF nj ni] by simp
qed

lemma length_shuffle: "length (shuffle n seed a) = length a"
  by (induction n arbitrary: seed a) (simp_all add: length_swap split: prod.splits)

lemma shuffle_byte: "\<forall>x\<in>set a. x < 256 \<Longrightarrow> \<forall>x\<in>set (shuffle n seed a). x < 256"
proof (induction n arbitrary: seed a)
  case 0
  then show ?case by simp
next
  case (Suc n)
  obtain r seed' where rs: "seededRandom seed = (r, seed')"
    by (cases "seededRandom seed")
  show ?case
    using Suc.IH [OF swap_byte [OF Suc.prems], of seed' "int (Suc n)"
        "\<lfloor>r * (real (Suc n) + 1)\<rfloor>"]
    by (simp add: rs)
qed

lemma set_shuffle:
  "\<forall>x\<in>set a. x < 256 \<Longrightarrow> set (shuffle n seed a) \<subseteq> insert 0 (set a)"
proof (induction n arbitrary: seed a)
  case 0
  then show ?case by auto
next
  case (Suc n)
  obtain r seed' where rs: "seededRandom seed = (r, seed')"
    by (cases "seededRandom seed")
  let ?a' = "swap a (int (Suc n)) \<lfloor>r * (real (Suc n) + 1)\<rfloor>"
  have "set (shuffle n seed' ?a') \<subseteq> insert 0 (set ?a')"
    by (rule Suc.IH) (rule swap_byte [OF Suc.prems])
  also have "\<dots> \<subseteq> insert 0 (set a)"
    using set_swap [OF Suc.prems] by auto
  finally show ?case
    by (simp add: rs)
qed

subsection \<open>The generator\<close>

lemma int_rem_nonneg: "0 \<le> a \<Longrightarrow> 0 < b \<Longrightarrow> int_rem a b = a mod b"
  by (cases "a = 0") (simp_all add: int_rem_def)

lemma seededRandom_nonneg:
  assumes "0 \<le> seed * 9301 + 49297"
  shows "seededRandom seed =
    (real_of_int ((seed * 9301 + 49297) mod 233280) / 233280, (seed * 9301 + 49297) mod 233280)"
  using assms by (simp add: seededRandom_def int_rem_nonneg Let_def)

text \<open>From a state in \<open>[0, 233280)\<close> the index \<open>j\<close> drawn for \<open>i\<close> lies in \<open>[0, i]\<close>.\<close>

lemma floor_random_index:
  assumes "0 \<le> s" "s < 233280"
  shows "0 \<le> \<lfloor>real_of_int s / 233280 * (real (Suc n) + 1)\<rfloor>"
    and "\<lfloor>real_of_int s / 233280 * (real (Suc n) + 1)\<rfloor> \<le> int (Suc n)"
proof -
  let ?r = "real_of_int s / 233280"
  have r0: "0 \<le> ?r" using assms by simp
  have r1: "?r < 1" using assms by simp
  show "0 \<le> \<lfloor>?r * (real (Suc n) + 1)\<rfloor>"
    using r0 by simp
  have "?r * (real (Suc n) + 1) < 1 * (real (Suc n) + 1)"
    by (rule mult_strict_right_mono [OF r1]) simp
  then have "?r * (real (Suc n) + 1) < real_of_int (int (Suc n) + 1)"
    by simp
  then have "\<lfloor>?r * (real (Suc n) + 1)\<rfloor> < int (Suc n) + 1"
    by (simp only: floor_less_iff)
  then show "\<lfloor>?r * (real (Suc n) + 1)\<rfloor> \<le> int (Suc n)"
    by simp
qed

lemma mset_shuffle:
  assumes "0 \<le> seed * 9301 + 49297" "\<forall>x\<in>set a. x < 256" "n < length a"
  shows "mset (shuffle n seed a) = mset a"
  using assms
proof (induction n arbitrary: seed a)
  case 0
  then show ?case by simp
next
  case (Suc n)
  let ?s = "(seed * 9301 + 49297) mod 233280"
  let ?j = "\<lfloor>real_of_int ?s / 233280 * (real (Suc n) + 1)\<rfloor>"
  let ?a = "swap a (int (Suc n)) ?j"
  have s: "0 \<le> ?s" "?s < 233280" by simp_all
  have j: "0 \<le> ?j" "?j \<le> int (Suc n)"
    using floor_random_index [OF s] by blast+
  have sw: "mset ?a = mset a"
    by (rule mset_swap_in_range) (use Suc.prems j in auto)
  have "mset (shuffle n ?s ?a) = mset ?a"
  proof (rule Suc.IH)
    show "0 \<le> ?s * 9301 + 49297" using s by simp
    show "\<forall>x\<in>set ?a. x < 256" by (rule swap_byte) (rule Suc.prems)
    show "n < length ?a" using Suc.prems by (simp add: length_swap)
  qed
  with sw show ?case
    by (simp add: seededRandom_nonneg [OF Suc.prems(1)])
qed

subsection \<open>The tables of a noise field\<close>

lemma identity_table: "map (\<lambda>i. to_uint8 (Some i)) [0..<256] = [0..<256]"
  by (rule nth_equalityI) (simp_all add: to_uint8_def)

lemma p_new_SimplexNoise: "p (new_SimplexNoise seed) = shuffle 255 seed [0..<256]"
  by (simp add: new_SimplexNoise_def Let_def identity_table)

text \<open>For a seed that is not negative the shuffle permutes the identity table.\<close>

lemma nonnegative_seed_permutation:
  assumes "0 \<le> seed"
  shows "mset (p (new_SimplexNoise seed)) = mset [0..<256]"
  unfolding p_new_SimplexNoise
  by (rule mset_shuffle) (use assms in auto)

lemma perm_length: "length (perm (new_SimplexNoise seed)) = 512"
  by (simp add: new_SimplexNoise_def Let_def)

lemma permMod12_length: "length (permMod12 (new_SimplexNoise seed)) = 512"
  by (simp add: new_SimplexNoise_def Let_def)

lemma perm_byte: "\<forall>x\<in>set (perm (new_SimplexNoise seed)). x < 256"
  by (auto simp: new_SimplexNoise_def Let_def to_uint8_byte)

lemma permMod12_bound: "\<forall>x\<in>set (permMod12 (new_SimplexNoise seed)). x < 12"
  by (auto simp: new_SimplexNoise_def Let_def rd_def to_uint8_def mod_mod_cancel)

lemma tablesOK_new: "tablesOK (new_SimplexNoise seed)"
  by (simp add: tablesOK_def perm_length permMod12_length perm_byte permMod12_bound)

lemma rd_perm:
  assumes "tablesOK N" "0 \<le> i" "i \<le> 511"
  shows "\<exists>v. rd (perm N) i = Some v \<and> v < 256"
  using assms by (auto simp: tablesOK_def rd_def)

lemma rd_permMod12:
  assumes "tablesOK N" "0 \<le> i" "i \<le> 511"
  shows "\<exists>v. rd (permMod12 N) i = Some v \<and> v < 12"
  using assms by (auto simp: tablesOK_def rd_def)

text \<open>
  With the three base indices masked to \<open>[0, 255]\<close> and a corner offset of 0 or 1 added,
  every read of the nested lookup is inside its table and the result is an index of
  \<open>grad3\<close>.
\<close>

lemma gradIndex_defined:
  assumes ok: "tablesOK N"
    and a: "0 \<le> a" "a \<le> 256" and b: "0 \<le> b" "b \<le> 256" and c: "0 \<le> c" "c \<le> 256"
  shows "\<exists>g. gradIndex N a b c = Some g \<and> g < 12"
proof -
  obtain pc where pc: "rd (perm N) c = Some pc" "pc < 256"
    using rd_perm [OF ok, of c] c by auto
  obtain pb where pb: "rd (perm N) (b + int pc) = Some pb" "pb < 256"
    using rd_perm [OF ok, of "b + int pc"] b pc by auto
  obtain g where g: "rd (permMod12 N) (a + int pb) = Some g" "g < 12"
    using rd_permMod12 [OF ok, of "a + int pb"] a pb by auto
  show ?thesis
    by (simp add: gradIndex_def pc pb g)
qed

lemma corner_defined: "g < 12 \<Longrightarrow> \<exists>v. corner (Some g) x y z = Some v"
  by (simp add: corner_def Let_def grad3_def)

lemma simplexOrder_range:
  assumes "simplexOrder x y z = (i1, j1, k1, i2, j2, k2)"
  shows "i1 \<in> {0, 1} \<and> j1 \<in> {0, 1} \<and> k1 \<in> {0, 1} \<and> i2 \<in> {0, 1} \<and> j2 \<in> {0, 1} \<and> k2 \<in> {0, 1}"
  using assms by (auto simp: simplexOrder_def split: if_splits)

text \<open>On such tables \<^verbatim>\<open>noise3D\<close> returns a number for every input: it does not throw.\<close>

lemma noise3D_defined:
  assumes ok: "tablesOK N"
  shows "\<exists>v. noise3D N xin yin zin = Some v"
proof -
  define s where "s = (xin + yin + zin) * F3"
  define i j k where "i = \<lfloor>xin + s\<rfloor>" and "j = \<lfloor>yin + s\<rfloor>" and "k = \<lfloor>zin + s\<rfloor>"
  define x0 y0 z0 where "x0 = xin - (real_of_int i - real_of_int (i + j + k) * G3)"
    and "y0 = yin - (real_of_int j - real_of_int (i + j + k) * G3)"
    and "z0 = zin - (real_of_int k - real_of_int (i + j + k) * G3)"
  obtain i1 j1 k1 i2 j2 k2 where so: "simplexOrder x0 y0 z0 = (i1, j1, k1, i2, j2, k2)"
    by (metis prod_cases3)
  note r = simplexOrder_range [OF so]
  have ii: "0 \<le> i AND 255" "i AND 255 \<le> 255"
    and jj: "0 \<le> j AND 255" "j AND 255 \<le> 255"
    and kk: "0 \<le> k AND 255" "k AND 255 \<le> 255"
    by (simp_all add: AND_upper2')
  obtain g0 where g0: "gradIndex N (i AND 255) (j AND 255) (k AND 255) = Some g0" "g0 < 12"
    using gradIndex_defined [OF ok, of "i AND 255" "j AND 255" "k AND 255"] ii jj kk by auto
  obtain g1 where g1:
    "gradIndex N ((i AND 255) + i1) ((j AND 255) + j1) ((k AND 255) + k1) = Some g1" "g1 < 12"
    using gradIndex_defined
      [OF ok, of "(i AND 255) + i1" "(j AND 255) + j1" "(k AND 255) + k1"] ii jj kk r
    by auto
  obtain g2 where g2:
    "gradIndex N ((i AND 255) + i2) ((j AND 255) + j2) ((k AND 255) + k2) = Some g2" "g2 < 12"
    using gradIndex_defined
      [OF ok, of "(i AND 255) + i2" "(j AND 255) + j2" "(k AND 255) + k2"] ii jj kk r
    by auto
  obtain g3 where g3:
    "gradIndex N ((i AND 255) + 1) ((j AND 255) + 1) ((k AND 255) + 1) = Some g3" "g3 < 12"
    using gradIndex_defined
      [OF ok, of "(i AND 255) + 1" "(j AND 255) + 1" "(k AND 255) + 1"] ii jj kk
    by auto
  obtain n0 where n0: "corner (Some g0) x0 y0 z0 = Some n0"
    using corner_defined [OF g0(2)] by blast
  obtain n1 where n1:
    "corner (Some g1) (x0 - real_of_int i1 + G3) (y0 - real_of_int j1 + G3)
       (z0 - real_of_int k1 + G3) = Some n1"
    using corner_defined [OF g1(2)] by blast
  obtain n2 where n2:
    "corner (Some g2) (x0 - real_of_int i2 + 2 * G3) (y0 - real_of_int j2 + 2 * G3)
       (z0 - real_of_int k2 + 2 * G3) = Some n2"
    using corner_defined [OF g2(2)] by blast
  obtain n3 where n3:
    "corner (Some g3) (x0 - 1 + 3 * G3) (y0 - 1 + 3 * G3) (z0 - 1 + 3 * G3) = Some n3"
    using corner_defined [OF g3(2)] by blast
  have "noise3D N xin yin zin = Some (32 * (n0 + n1 + n2 + n3))"
    unfolding noise3D_def Let_def
    by (simp only: s_def [symmetric] i_def [symmetric] j_def [symmetric] k_def [symmetric]
          x0_def [symmetric] y0_def [symmetric] z0_def [symmetric] so prod.case
          g0 g1 g2 g3 n0 n1 n2 n3 option.case)
  then show ?thesis by blast
qed

text \<open>The first round of the shuffle from the seed \<open>-6\<close>, evaluated.\<close>

lemma shuffle_first_round:
  "shuffle 255 (- 6) [0..<256] = shuffle 254 (- 6509) ([0..<255] @ [0])"
proof -
  have sr: "seededRandom (- 6) = (- 6509 / 233280, - 6509)"
    by (simp add: seededRandom_def int_rem_def)
  have fl: "\<lfloor>(- 6509 / 233280 :: real) * (real (Suc 254) + 1)\<rfloor> = - 8"
    by simp
  have "[0..<Suc 255] = [0..<255] @ [255]"
    by (rule upt_Suc_append) simp
  then have up: "[0..<256] = [0..<255] @ [255]"
    by simp
  have sw: "swap [0..<256] (int (Suc 254)) (- 8) = [0..<255] @ [0]"
    unfolding up by (simp add: swap_def rd_def wr_def to_uint8_def list_update_append)
  have "shuffle (Suc 254) (- 6) [0..<256] = shuffle 254 (- 6509) ([0..<255] @ [0])"
    by (simp only: shuffle.simps sr prod.case Let_def fl sw)
  then show ?thesis by simp
qed

text \<open>
  C9. The claim: after construction with any integer seed, \<open>p\<close> is a permutation of
  \<open>[0..255]\<close>. The code at the seed \<open>-6\<close>: the remainder \<^verbatim>\<open>%\<close> keeps the sign of the
  dividend, the first number drawn is \<open>-6509 / 233280\<close>, \<open>j\<close> is \<open>-8\<close>, the read
  \<^verbatim>\<open>p[-8]\<close> is \<^verbatim>\<open>undefined\<close> and is stored in \<^verbatim>\<open>p[255]\<close> as 0, and the write to
  \<^verbatim>\<open>p[-8]\<close> is lost. The value 255 is in the table no more, so \<open>p\<close> is not a
  permutation of \<open>[0..255]\<close>.
\<close>

theorem negative_seed_not_permutation:
  "255 \<notin> set (p (new_SimplexNoise (- 6))) \<and>
   mset (p (new_SimplexNoise (- 6))) \<noteq> mset [0..<256]"
proof -
  have "set (shuffle 254 (- 6509) ([0..<255] @ [0])) \<subseteq> insert 0 (set ([0..<255] @ [0]))"
    by (rule set_shuffle) auto
  then have absent: "255 \<notin> set (p (new_SimplexNoise (- 6)))"
    by (auto simp: p_new_SimplexNoise shuffle_first_round)
  have "mset (p (new_SimplexNoise (- 6))) \<noteq> mset [0..<256]"
  proof
    assume "mset (p (new_SimplexNoise (- 6))) = mset [0..<256]"
    then have "set (p (new_SimplexNoise (- 6))) = set [0..<256]"
      by (rule mset_eq_setD)
    with absent show False by simp
  qed
  with absent show ?thesis by simp
qed



text \<open>
  An engine built with a \<^verbatim>\<open>noiseSeed\<close>, or given one by \<^verbatim>\<open>updateConfig\<close>, owns the noise
  field of that seed, whatever \<^verbatim>\<open>Math.random()\<close> returned for the default seed and
  whatever the other fields are.
\<close>

lemma engine_noise_of_seed:
  assumes "new_noiseSeed given = Some seed"
  shows "noise (new_WaveEngine given randomSeed) = new_SimplexNoise seed"
    and "noise (updateConfig s given) = new_SimplexNoise seed"
  using assms by (simp_all add: new_WaveEngine_def updateConfig_def assign_def Let_def)



subsection \<open>calculateWave\<close>

text \<open>
  The noise field of an engine is always one that the constructor of \<^verbatim>\<open>SimplexNoise\<close>
  built from a seed: the constructor of the engine sets it so and every method keeps it so.
\<close>

lemma engine_noise_built:
  "\<exists>seed. noise (new_WaveEngine given randomSeed) = new_SimplexNoise seed"
  "\<exists>seed. noise s = new_SimplexNoise seed \<Longrightarrow>
     (\<exists>seed. noise (updateConfig s n) = new_SimplexNoise seed) \<and>
     (\<exists>seed. noise (setCharacterSet s name) = new_SimplexNoise seed) \<and>
     (\<exists>seed. noise (update s deltaTime) = new_SimplexNoise seed) \<and>
     (\<exists>seed. noise (resetTime s) = new_SimplexNoise seed)"
  by (auto simp: new_WaveEngine_def updateConfig_def setCharacterSet_def update_def
        resetTime_def Let_def)

text \<open>
  C1. In an engine whose noise field was built by the constructor of \<^verbatim>\<open>SimplexNoise\<close>
  from an integer seed (every engine that the constructor and the methods produce, see
  \<open>engine_noise_built\<close>), \<^verbatim>\<open>calculateWave(x, y, layer)\<close> returns
  the sum of the five terms of the specification, \<open>sample\<close> being what \<^verbatim>\<open>noise3D\<close>
  returns at \<open>(x * frequency * 2, y * frequency * 2 + t * layerSpeed * 0.1, layer * 0.5)\<close>.
  The equation holds for all real \<open>x\<close>, \<open>y\<close> and every integer \<open>layer\<close>.
\<close>

theorem calculateWave_five_terms:
  assumes "noise s = new_SimplexNoise seed"
  shows "\<exists>sample.
           noise3D (noise s) (x * frequency (config s) * 2)
             (y * frequency (config s) * 2 + time s * layerSpeed (config s) layer * 0.1)
             (real_of_int layer * 0.5) = Some sample \<and>
           calculateWave s x y layer =
             Some (sampleHeight_spec (config s) (time s) sample x y layer)"
proof -
  have "tablesOK (noise s)"
    by (simp only: assms tablesOK_new)
  then obtain sample where sample:
    "noise3D (noise s) (x * frequency (config s) * 2)
       (y * frequency (config s) * 2 + time s * layerSpeed (config s) layer * 0.1)
       (real_of_int layer * 0.5) = Some sample"
    using noise3D_defined by blast
  define L where "L = layerSpeed (config s) layer"
  define A where "A = layerAmplitude (config s) layer"
  have spec: "sampleHeight_spec (config s) (time s) sample x y layer =
      sin (x * frequency (config s) * (2 * pi) + time s * L) * A
      + sin (x * (frequency (config s) * 1.5) * (2 * pi) + time s * (L * 1.3)) * (A * 0.5)
      + sin (x * (frequency (config s) * 2.5) * (2 * pi) + time s * (L * 0.7)) * (A * 0.3)
      + sample * choppiness (config s) * A
      + sin (y * pi + time s * L * 0.5) * (A * 0.3)"
    by (simp only: sampleHeight_spec_def Let_def L_def A_def layerSpeed_def layerAmplitude_def
          layerDepth_def)
  have code: "calculateWave s x y layer = Some
     (0 + sin (x * frequency (config s) * pi * 2 + time s * L) * A
      + sin (x * frequency (config s) * 1.5 * pi * 2 + time s * L * 1.3) * A * 0.5
      + sin (x * frequency (config s) * 2.5 * pi * 2 + time s * L * 0.7) * A * 0.3
      + sample * choppiness (config s) * A
      + sin (y * pi + time s * L * 0.5) * A * 0.3)"
    by (simp only: calculateWave_def Let_def sample option.case L_def A_def)
  have "calculateWave s x y layer =
      Some (sampleHeight_spec (config s) (time s) sample x y layer)"
    unfolding spec code by (simp add: mult_ac)
  with sample show ?thesis by blast
qed

theorem calculateWave_five_terms_witness:
  "noise specExample = new_SimplexNoise 42 \<and>
   calculateWave specExample 0 0 0 = Some 0"
proof -
  have inv: "noise specExample = new_SimplexNoise 42"
    by (simp add: specExample_def new_WaveEngine_def Let_def assign_def)
  have zero: "sampleHeight_spec (config specExample) (time specExample) v 0 0 0 = 0" for v
    by (simp add: specExample_def new_WaveEngine_def Let_def assign_def sampleHeight_spec_def)
  from calculateWave_five_terms [OF inv, of 0 0 0] zero inv show ?thesis
    by auto
qed

subsection \<open>Overflow and the normalised wave value\<close>

lemma threshold_values:
  "2 ^ 64 < overflow_threshold"
  "MAX_VALUE + 2 ^ 64 < overflow_threshold"
  "10 ^ 308 + 2 ^ 64 < overflow_threshold"
  by (simp_all add: overflow_threshold_def MAX_VALUE_def)

lemma fin_Num: "\<bar>r\<bar> < overflow_threshold \<Longrightarrow> fin r = Num r"
  by (simp add: fin_def)

lemma fin_small: "\<bar>r\<bar> \<le> 2 ^ 64 \<Longrightarrow> fin r = Num r"
  using threshold_values(1) by (intro fin_Num) linarith



lemma fin_not_NaN: "fin r \<noteq> NaN"
  by (simp add: fin_def inf_of_sign_def)

lemma clamp_Num: "clamp (Num v) (Num lo) (Num hi) = Num (max lo (min hi v))"
  by (simp add: clamp_def max_def min_def)

lemma clamp_infinite:
  "clamp PosInf (Num 0) (Num 1) = Num 1" "clamp NegInf (Num 0) (Num 1) = Num 0"
  by (simp_all add: clamp_def)

text \<open>The clamp to \<open>[0, 1]\<close> of anything but \<open>NaN\<close> is a number in \<open>[0, 1]\<close>.\<close>

lemma clamp_unit:
  assumes "x \<noteq> NaN"
  shows "\<exists>n. clamp x (Num 0) (Num 1) = Num n \<and> 0 \<le> n \<and> n \<le> 1"
  using assms by (cases x) (simp_all add: clamp_Num clamp_infinite)

lemma Math_min_Num: "Math_min (Num a) (Num b) = Num (min a b)"
  by (simp add: min_def)


lemma js_sub_Num: "js_sub (Num a) (Num b) = fin (a - b)"
  by (simp add: js_sub_def)

lemma js_add_not_NaN: "x \<noteq> NaN \<Longrightarrow> js_add x (Num c) \<noteq> NaN"
  by (cases x) (simp_all add: fin_not_NaN)

lemma js_div_not_NaN: "x \<noteq> NaN \<Longrightarrow> c \<noteq> 0 \<Longrightarrow> js_div x (Num c) \<noteq> NaN"
  by (cases x) (simp_all add: fin_not_NaN)

text \<open>Zero over zero is \<open>NaN\<close>, and \<^verbatim>\<open>Utils.clamp\<close> hands \<open>NaN\<close> on.\<close>

lemma normalized_NaN: "normalized 0 0 = NaN"
  by (simp add: normalized_def clamp_def)

lemma normalized_finite:
  assumes "\<not> (w = 0 \<and> a = 0)"
  shows "\<exists>n. normalized w a = Num n \<and> 0 \<le> n \<and> n \<le> 1"
proof -
  have quotient: "js_div (Num w) (Num a) \<noteq> NaN"
    by (cases "a = 0") (use assms in \<open>auto simp: fin_not_NaN inf_of_sign_def\<close>)
  have "js_add (js_div (Num w) (Num a)) (Num 1) \<noteq> NaN"
    by (rule js_add_not_NaN [OF quotient])
  then have "js_div (js_add (js_div (Num w) (Num a)) (Num 1)) (Num 2) \<noteq> NaN"
    by (rule js_div_not_NaN) simp
  then show ?thesis
    unfolding normalized_def by (rule clamp_unit)
qed

subsection \<open>selectCharacter\<close>

lemma calculateWave_flat:
  assumes "tablesOK (noise s)" and "amplitude (config s) = 0"
  shows "calculateWave s x y layer = Some 0"
proof -
  obtain v where "noise3D (noise s) (x * frequency (config s) * 2)
       (y * frequency (config s) * 2 + time s * layerSpeed (config s) layer * 0.1)
       (real_of_int layer * 0.5) = Some v"
    using noise3D_defined [OF assms(1)] by blast
  then show ?thesis
    by (simp add: calculateWave_def Let_def layerAmplitude_def assms(2))
qed

text \<open>
  C3. The claim: for every finite wave value and every amplitude, the character returned
  is an element of one of the six bands. The code at amplitude 0, the low end of the
  amplitude slider: \<^verbatim>\<open>calculateWave\<close> returns 0 everywhere, \<^verbatim>\<open>0 / 0\<close> is \<open>NaN\<close>, the
  clamp keeps \<open>NaN\<close>, every comparison with it is false, the sky branch computes the index
  \<open>NaN\<close>, and \<^verbatim>\<open>chars[NaN]\<close> is \<^verbatim>\<open>undefined\<close>: no character of any band is returned.
\<close>

theorem zero_amplitude_selects_undefined:
  "calculateWave flatEngine x y layer = Some 0 \<and>
   selectCharacter flatEngine 0 layer random = Return None"
proof -
  have amp: "amplitude (config flatEngine) = 0"
    by (simp add: flatEngine_def updateConfig_def assign_def emptyPartial_def)
  have "noise flatEngine = new_SimplexNoise 42"
    by (simp add: flatEngine_def updateConfig_def new_WaveEngine_def assign_def
          emptyPartial_def defaultConfig_def)
  then have "tablesOK (noise flatEngine)"
    by (simp only: tablesOK_new)
  then have wave: "calculateWave flatEngine x y layer = Some 0"
    using amp by (rule calculateWave_flat)
  have "currentCharacterSet flatEngine = ''classic''"
    by (simp add: flatEngine_def updateConfig_def new_WaveEngine_def Let_def emptyPartial_def)
  then have "selectCharacter flatEngine 0 layer random = Return None"
    by (simp add: selectCharacter_def characterSets_def selectFrom_def foamSelected_def amp
          normalized_NaN js_gt_def pick_def)
  with wave show ?thesis by simp
qed

text \<open>
  A band that is not empty (and no longer than an array can be) gives one of its
  characters for every factor from 0 to 8.
\<close>

lemma pick_in_band:
  assumes ne: "chars \<noteq> []" and short: "length chars < 2 ^ 32" and e: "0 \<le> e" "e \<le> 8"
  shows "\<exists>g. pick chars (Num e) = Some g \<and> g \<in> set chars"
proof -
  define len where "len = length chars"
  define m where "m = min \<lfloor>e * real len\<rfloor> (int len - 1)"
  have len: "0 < len" using ne by (simp add: len_def)
  have lenr: "real len \<le> 2 ^ 32"
    using short by (simp add: len_def)
  have "e * real len \<le> 8 * 2 ^ 32"
    by (rule mult_mono) (use e lenr in auto)
  then have el: "\<bar>e * real len\<bar> \<le> 2 ^ 64"
    using e by simp
  have "0 \<le> \<lfloor>e * real len\<rfloor>" using e by simp
  then have m0: "0 \<le> m" using len by (simp add: m_def)
  have m1: "m < int len" by (simp add: m_def)
  have mr: "min (real_of_int \<lfloor>e * real len\<rfloor>) (real len - 1) = real_of_int m"
    by (simp add: m_def min_def)
  have idx: "Math_floor (js_mul (Num e) (Num (real len))) = Num (real_of_int \<lfloor>e * real len\<rfloor>)"
    by (simp add: fin_small [OF el])
  have "\<bar>real len - 1\<bar> \<le> 2 ^ 64"
    using lenr len by simp
  then have last: "js_sub (Num (real len)) (Num 1) = Num (real len - 1)"
    by (simp add: js_sub_Num fin_small)
  have "pick chars (Num e) = elemAt chars (Num (real_of_int m))"
    by (simp only: pick_def Let_def len_def [symmetric] idx last Math_min_Num mr)
  also have "\<dots> = Some (chars ! nat m)"
    using m0 m1 by (simp add: len_def)
  finally show ?thesis
    using m0 m1 by (auto simp: len_def)
qed

lemma selectFrom_Num:
  assumes n: "normalized waveValue (amplitude c) = Num n" "0 \<le> n" "n \<le> 1"
    and r: "0 \<le> random" "random \<le> 1"
  shows "selectFrom cs c waveValue random =
     (if foamSelected c waveValue then pick (foam cs) (Num (random * 0.3 + n * 0.7))
      else if 0.75 < n then pick (surface cs) (Num ((n - 0.75) * 4))
      else if 0.55 < n then pick (shallow cs) (Num ((n - 0.55) * 5))
      else if 0.35 < n then pick (medium cs) (Num ((n - 0.35) * 5))
      else if 0.15 < n then pick (deep cs) (Num ((n - 0.15) * 5))
      else pick (sky cs) (Num (n * 6.67)))"
proof -
  have a1: "js_add (Num (random * 0.3)) (js_mul (Num n) (Num 0.7)) = Num (random * 0.3 + n * 0.7)"
    using n r by (simp add: fin_small)
  have a2: "js_mul (js_sub (Num n) (Num 0.75)) (Num 4) = Num ((n - 0.75) * 4)"
    using n by (simp add: js_sub_Num fin_small)
  have a3: "js_mul (js_sub (Num n) (Num 0.55)) (Num 5) = Num ((n - 0.55) * 5)"
    using n by (simp add: js_sub_Num fin_small)
  have a4: "js_mul (js_sub (Num n) (Num 0.35)) (Num 5) = Num ((n - 0.35) * 5)"
    using n by (simp add: js_sub_Num fin_small)
  have a5: "js_mul (js_sub (Num n) (Num 0.15)) (Num 5) = Num ((n - 0.15) * 5)"
    using n by (simp add: js_sub_Num fin_small)
  have a6: "js_mul (Num n) (Num 6.67) = Num (n * 6.67)"
    using n by (simp add: fin_small)
  show ?thesis
    by (simp only: selectFrom_def Let_def n(1) js_gt_def js_lt.simps a1 a2 a3 a4 a5 a6)
qed

text \<open>
  Unless the wave value and the amplitude are both 0, \<^verbatim>\<open>selectCharacter\<close> returns a
  character of the foam band when the foam condition holds and a character of one of the
  other five bands when it does not.
\<close>

lemma selectFrom_in_bands:
  assumes ok: "\<not> (waveValue = 0 \<and> amplitude c = 0)"
    and r: "0 \<le> random" "random \<le> 1"
    and ne: "sky cs \<noteq> []" "surface cs \<noteq> []" "shallow cs \<noteq> []" "medium cs \<noteq> []"
      "deep cs \<noteq> []" "foam cs \<noteq> []"
    and short: "length (sky cs) < 2 ^ 32" "length (surface cs) < 2 ^ 32"
      "length (shallow cs) < 2 ^ 32" "length (medium cs) < 2 ^ 32" "length (deep cs) < 2 ^ 32"
      "length (foam cs) < 2 ^ 32"
  shows "\<exists>g. selectFrom cs c waveValue random = Some g \<and>
           (if foamSelected c waveValue then g \<in> set (foam cs)
            else g \<in> set (sky cs) \<union> set (surface cs) \<union> set (shallow cs) \<union> set (medium cs)
                   \<union> set (deep cs))"
proof -
  obtain n where n: "normalized waveValue (amplitude c) = Num n" "0 \<le> n" "n \<le> 1"
    using normalized_finite [OF ok] by blast
  note eq = selectFrom_Num [OF n r, of cs]
  have foam: "\<exists>g. pick (foam cs) (Num (random * 0.3 + n * 0.7)) = Some g \<and> g \<in> set (foam cs)"
    by (rule pick_in_band) (use r n ne short in auto)
  have surface: "0.75 < n \<Longrightarrow>
      \<exists>g. pick (surface cs) (Num ((n - 0.75) * 4)) = Some g \<and> g \<in> set (surface cs)"
    by (rule pick_in_band) (use n ne short in auto)
  have shallow: "0.55 < n \<Longrightarrow>
      \<exists>g. pick (shallow cs) (Num ((n - 0.55) * 5)) = Some g \<and> g \<in> set (shallow cs)"
    by (rule pick_in_band) (use n ne short in auto)
  have medium: "0.35 < n \<Longrightarrow>
      \<exists>g. pick (medium cs) (Num ((n - 0.35) * 5)) = Some g \<and> g \<in> set (medium cs)"
    by (rule pick_in_band) (use n ne short in auto)
  have deep: "0.15 < n \<Longrightarrow>
      \<exists>g. pick (deep cs) (Num ((n - 0.15) * 5)) = Some g \<and> g \<in> set (deep cs)"
    by (rule pick_in_band) (use n ne short in auto)
  have sky: "\<exists>g. pick (sky cs) (Num (n * 6.67)) = Some g \<and> g \<in> set (sky cs)"
    by (rule pick_in_band) (use n ne short in auto)
  show ?thesis
  proof (cases "foamSelected c waveValue")
    case True
    with foam show ?thesis by (simp only: eq if_True)
  next
    case nf: False
    show ?thesis
    proof (cases "0.75 < n")
      case True
      with surface nf show ?thesis by (simp only: eq if_True if_False) blast
    next
      case n1: False
      show ?thesis
      proof (cases "0.55 < n")
        case True
        with shallow nf n1 show ?thesis by (simp only: eq if_True if_False) blast
      next
        case n2: False
        show ?thesis
        proof (cases "0.35 < n")
          case True
          with medium nf n1 n2 show ?thesis by (simp only: eq if_True if_False) blast
        next
          case n3: False
          show ?thesis
          proof (cases "0.15 < n")
            case True
            with deep nf n1 n2 n3 show ?thesis by (simp only: eq if_True if_False) blast
          next
            case n4: False
            with sky nf n1 n2 n3 show ?thesis by (simp only: eq if_True if_False) blast
          qed
        qed
      qed
    qed
  qed
qed

lemma not_foam_at_threshold_one:
  assumes t: "foamThreshold c = 1"
  shows "\<not> foamSelected c waveValue"
proof (cases "waveValue = 0 \<and> amplitude c = 0")
  case True
  then show ?thesis by (simp add: foamSelected_def)
next
  case False
  obtain n where "normalized waveValue (amplitude c) = Num n" "n \<le> 1"
    using normalized_finite [OF False] by blast
  then show ?thesis
    by (simp add: foamSelected_def js_gt_def t)
qed

subsection \<open>calculateColor\<close>








text \<open>
  When the product of the brightness and the contrast overflows and the depth factor is 0,
  the lightness is infinity times zero, \<open>NaN\<close>, and so is every channel: here the
  brightness is 1.5, the contrast \<open>10^308\<close>, the layer depth 1 and the depth effect 2.
\<close>

lemma overflow_makes_NaN:
  "calculateColor (defaultRender\<lparr>brightness := 1.5, contrast := 10 ^ 308\<rparr>)
     ((defaultConfig 42)\<lparr>depthEffect := 2\<rparr>) 0.8 1 = (NaN, NaN, NaN)"
  by (simp add: calculateColor_def normalized_def clamp_def defaultConfig_def defaultRender_def
        hslToRgb_def Let_def js_sub_def fin_def overflow_threshold_def inf_of_sign_def)




subsection \<open>setCharacterSet\<close>

text \<open>
  C8. The claim: a name that is not one of the four palette identifiers leaves the active
  palette unchanged and signals no error. The code at the name \<^verbatim>\<open>constructor\<close>:
  \<^verbatim>\<open>this.characterSets['constructor']\<close> is the inherited \<^verbatim>\<open>Object\<close> function, which is
  truthy, so the name becomes the current character set; the next
  \<^verbatim>\<open>selectCharacter\<close> finds no bands in it and throws a TypeError.
\<close>

theorem inherited_name_accepted:
  "setCharacterSet s ''constructor'' = s\<lparr>currentCharacterSet := ''constructor''\<rparr> \<and>
   selectCharacter (setCharacterSet s ''constructor'') waveValue layer random = Throw"
  by (simp add: setCharacterSet_def selectCharacter_def characterSets_def
        Object_prototype_keys_def)

text \<open>
  Each of the four identifiers is made the current character set, and a name that is
  neither an identifier nor a property of \<^verbatim>\<open>Object.prototype\<close> changes nothing.
\<close>

lemma setCharacterSet_valid:
  assumes "name \<in> {''classic'', ''minimal'', ''dense'', ''unicode''}"
  shows "setCharacterSet s name = s\<lparr>currentCharacterSet := name\<rparr>"
  using assms by (auto simp: setCharacterSet_def characterSets_def)

lemma setCharacterSet_unknown:
  assumes "name \<notin> {''classic'', ''minimal'', ''dense'', ''unicode''}"
    and "name \<notin> set Object_prototype_keys"
  shows "setCharacterSet s name = s"
  using assms by (simp add: setCharacterSet_def characterSets_def)

end
